theory Spec2Isabelle
  imports Complex_Main "HOL-Library.Sublist"
begin

chapter \<open>ForceCode: the SFDX command runner and the bulk-load status poller\<close>

text \<open>
  The development embeds two pieces of the extension:
  \<^item> \<open>DXService.runCommand\<close> and \<open>DXService.execAnon\<close> (the file that starts with
    \<open>export interface SFDX\<close>): building the command line, the sentinel that carries spaces
    through \<open>split(' ')\<close>, the stream, error, close and cancellation handlers;
  \<^item> \<open>checkStatus\<close> of the \<open>BulkLoader\<close> command: the timer loop that polls a batch.

  Strings are lists of characters. Everything the code reaches outside the repository is
  an input of the model: what \<open>spawn\<close> returns, the events the child process delivers, what
  \<open>JSON.parse\<close> makes of the collected output, what \<open>batch.check()\<close> answers.
\<close>

section \<open>Strings\<close>

text \<open>
  \<open>s.split(sep)\<close> for a string separator: the leftmost occurrence of \<open>sep\<close> ends the
  current piece, and the search goes on behind it. \<open>split_from sep piece s\<close> carries the
  piece read so far. With the empty separator JavaScript returns the characters one by one.
\<close>

function split_from :: "string \<Rightarrow> string \<Rightarrow> string \<Rightarrow> string list" where
  "split_from sep piece [] = [piece]"
| "split_from sep piece (c # cs) =
     (if sep \<noteq> [] \<and> prefix sep (c # cs)
      then piece # split_from sep [] (drop (length sep) (c # cs))
      else split_from sep (piece @ [c]) cs)"
  by pat_completeness auto
termination
  by (relation "measure (\<lambda>(sep, piece, s). length s)") auto

definition split_str :: "string \<Rightarrow> string \<Rightarrow> string list" where
  "split_str s sep = (if sep = [] then map (\<lambda>c. [c]) s else split_from sep [] s)"

text \<open>\<open>pieces.join(sep)\<close>\<close>

fun join_str :: "string list \<Rightarrow> string \<Rightarrow> string" where
  "join_str [] sep = []"
| "join_str [p] sep = p"
| "join_str (p # q # ps) sep = p @ sep @ join_str (q # ps) sep"

text \<open>\<open>s.includes(pat)\<close>, which is also \<open>s.indexOf(pat) > -1\<close>\<close>

fun includes_str :: "string \<Rightarrow> string \<Rightarrow> bool" where
  "includes_str [] pat = (pat = [])"
| "includes_str (c # cs) pat = (prefix pat (c # cs) \<or> includes_str cs pat)"

text \<open>
  \<open>s.toLowerCase()\<close> on the ASCII letters; every other character is kept. (The patterns
  the code looks for are ASCII.)
\<close>

definition toLowerCase_char :: "char \<Rightarrow> char" where
  "toLowerCase_char c =
     (case map_of (zip ''ABCDEFGHIJKLMNOPQRSTUVWXYZ'' ''abcdefghijklmnopqrstuvwxyz'') c of
        Some l \<Rightarrow> l
      | None \<Rightarrow> c)"

definition toLowerCase :: "string \<Rightarrow> string" where
  "toLowerCase s = map toLowerCase_char s"

section \<open>The space sentinel\<close>

text \<open>
  \<open>execAnon\<close> hides the spaces of a file path before the path is pasted into the command
  line: \<open>file.split(' ').join('#FC*SPACE*#')\<close>. \<open>runCommand\<close> splits the command line at
  spaces and restores them in every argument: \<open>arg.split('#FC*SPACE*#').join(' ')\<close>.
\<close>

definition SPACE_SENTINEL :: string where
  "SPACE_SENTINEL = ''#FC*SPACE*#''"

definition encode_arg :: "string \<Rightarrow> string" where
  "encode_arg file = join_str (split_str file '' '') SPACE_SENTINEL"

definition decode_arg :: "string \<Rightarrow> string" where
  "decode_arg arg = join_str (split_str arg SPACE_SENTINEL) '' ''"

text \<open>
  The strings on which the round trip is proved below: neither the sentinel nor the
  sentinel's first ten characters followed by a space occur in them.
\<close>

definition round_trip_safe :: "string \<Rightarrow> bool" where
  "round_trip_safe s =
     (\<not> includes_str s SPACE_SENTINEL \<and> \<not> includes_str s ''#FC*SPACE* '')"

section \<open>JSON values and the JavaScript operators applied to them\<close>

text \<open>
  What \<open>JSON.parse\<close> returns. A JavaScript value in the close handler is \<open>undefined\<close>
  (\<open>None\<close>) or one of these. An object is the list of its own properties, each key once.
  Numbers are real numbers: the code compares them with 0 and does no arithmetic on them.
\<close>

datatype json =
    JNull
  | JBool bool
  | JNum real
  | JStr string
  | JArr "json list"
  | JObj "(string \<times> json) list"

text \<open>Truthiness, as \<open>!x\<close> and \<open>a || b\<close> read it.\<close>

fun truthy :: "json option \<Rightarrow> bool" where
  "truthy None = False"
| "truthy (Some JNull) = False"
| "truthy (Some (JBool b)) = b"
| "truthy (Some (JNum r)) = (r \<noteq> 0)"
| "truthy (Some (JStr s)) = (s \<noteq> [])"
| "truthy (Some (JArr xs)) = True"
| "truthy (Some (JObj kvs)) = True"

text \<open>
  \<open>v.k\<close> for a value \<open>v\<close> that is neither \<open>undefined\<close> nor \<open>null\<close>, and a key among those
  the code reads (\<open>status\<close>, \<open>result\<close>, \<open>exitCode\<close>, \<open>message\<close>, \<open>error\<close>, \<open>length\<close>): an
  object answers with its own property, an array and a string know their \<open>length\<close>, every
  other read is \<open>undefined\<close>.
\<close>

fun get_prop :: "json \<Rightarrow> string \<Rightarrow> json option" where
  "get_prop (JObj kvs) k = map_of kvs k"
| "get_prop (JArr xs) k = (if k = ''length'' then Some (JNum (real (length xs))) else None)"
| "get_prop (JStr s) k = (if k = ''length'' then Some (JNum (real (length s))) else None)"
| "get_prop v k = None"

text \<open>\<open>v?.k\<close>: \<open>undefined\<close> when \<open>v\<close> is \<open>undefined\<close> or \<open>null\<close>.\<close>

fun opt_prop :: "json option \<Rightarrow> string \<Rightarrow> json option" where
  "opt_prop None k = None"
| "opt_prop (Some JNull) k = None"
| "opt_prop (Some v) k = get_prop v k"

text \<open>
  The parts of the JavaScript runtime the handler relies on. \<open>JSON_parse\<close> is \<open>None\<close>
  where \<open>JSON.parse\<close> throws. \<open>coerced_gt_zero v\<close> is \<open>v > 0\<close> for a string, an array or an
  object \<open>v\<close>, which the runtime converts to a number first; \<open>coerced_to_string v\<close> is the
  text that \<open>v + ' '\<close> starts with for a number, an array or an object. Both conversions are
  taken as total: an object that carries a property named \<open>toString\<close> of its own, on which
  the conversion raises a TypeError, is outside the model.
\<close>

record js_runtime =
  JSON_parse :: "string \<Rightarrow> json option"
  coerced_gt_zero :: "json \<Rightarrow> bool"
  coerced_to_string :: "json \<Rightarrow> string"

text \<open>\<open>x > 0\<close>\<close>

fun gt_zero :: "js_runtime \<Rightarrow> json option \<Rightarrow> bool" where
  "gt_zero rt None = False"
| "gt_zero rt (Some JNull) = False"
| "gt_zero rt (Some (JBool b)) = b"
| "gt_zero rt (Some (JNum r)) = (0 < r)"
| "gt_zero rt (Some v) = coerced_gt_zero rt v"

text \<open>The text of \<open>x\<close> in \<open>x + ' '\<close>\<close>

fun to_string :: "js_runtime \<Rightarrow> json option \<Rightarrow> string" where
  "to_string rt None = ''undefined''"
| "to_string rt (Some JNull) = ''null''"
| "to_string rt (Some (JBool b)) = (if b then ''true'' else ''false'')"
| "to_string rt (Some (JStr s)) = s"
| "to_string rt (Some v) = coerced_to_string rt v"

section \<open>runCommand\<close>

subsection \<open>The invocation\<close>

text \<open>\<open>new Error()\<close>: an empty message, and the call stack of the place that made it.\<close>

record js_error =
  err_message :: string
  err_stack :: string

definition new_Error :: "string \<Rightarrow> js_error" where
  "new_Error stk = \<lparr>err_message = [], err_stack = stk\<rparr>"

text \<open>
  What \<open>runCommand\<close> reads from its surroundings: \<open>isWindows()\<close>, the user name of
  \<open>fcConnection.currentConnection\<close> (\<open>None\<close> without a connection) and the call stack.
\<close>

record environment =
  env_isWindows :: bool
  env_username :: "string option"
  env_stack :: string

text \<open>What the handlers keep of the call: lines 74 to 94 of the file.\<close>

record invocation =
  inv_fullCommand :: string
  inv_error :: js_error
  inv_bypassReject :: bool

definition fullCommand_of :: "environment \<Rightarrow> string \<Rightarrow> bool \<Rightarrow> string" where
  "fullCommand_of env cmdString targetusername =
     (let c0 = ''sfdx force:'' @ cmdString @
                 (case env_username env of
                    Some u \<Rightarrow> if targetusername then '' --targetusername '' @ u else []
                  | None \<Rightarrow> []);
          c1 = (if env_isWindows env then ''cmd /c '' @ c0 else c0)
      in if includes_str c1 ''--json'' then c1 else c1 @ '' --json'')"

definition new_invocation :: "environment \<Rightarrow> string \<Rightarrow> bool \<Rightarrow> bool \<Rightarrow> invocation" where
  "new_invocation env cmdString targetusername bypassReject =
     \<lparr>inv_fullCommand = fullCommand_of env cmdString targetusername,
      inv_error = new_Error (env_stack env),
      inv_bypassReject = bypassReject\<rparr>"

text \<open>\<open>parts[0]\<close> and \<open>parts.slice(1).map(...)\<close>: the program and its arguments.\<close>

definition commandName_of :: "string \<Rightarrow> string" where
  "commandName_of fullCommand = (case split_str fullCommand '' '' of [] \<Rightarrow> [] | p # ps \<Rightarrow> p)"

definition args_of :: "string \<Rightarrow> string list" where
  "args_of fullCommand = map decode_arg (tl (split_str fullCommand '' ''))"

text \<open>The command string \<open>execAnon\<close> hands to \<open>runCommand\<close>.\<close>

definition execAnon_cmdString :: "string \<Rightarrow> string" where
  "execAnon_cmdString file = ''apex:execute --apexcodefile '' @ encode_arg file"

subsection \<open>State, effects and events\<close>

text \<open>
  The calls that leave the function: a line for the log, an error shown to the user, and
  \<open>kill(pid, 'SIGKILL', ...)\<close> of the tree-kill package (\<open>cmd.pid\<close> is \<open>undefined\<close>, here
  \<open>None\<close>, when no process was started).
\<close>

datatype effect =
    WriteLog string
  | ShowError string
  | TreeKill "nat option"

text \<open>How a promise is settled: \<open>resolve(v)\<close>, \<open>reject(r)\<close>, \<open>reject()\<close>.\<close>

datatype reason =
    NoReason
  | ReasonString string
  | ReasonJson json
  | ReasonError js_error

datatype settlement =
    Resolved "json option"
  | Rejected reason

text \<open>
  The variables of one call. \<open>promise\<close> is \<open>None\<close> while the promise is pending.
  \<open>token_listeners\<close> are the \<open>'cancelled'\<close> listeners of the token's emitter, oldest
  first: every listener is a \<open>killPromise\<close> closure, known by the \<open>pid\<close> it holds.
  \<open>handler_threw\<close> records an exception that left an event handler.
\<close>

record run_state =
  handlers_attached :: bool
  stdout_text :: string
  sfdxNotFound :: bool
  promise :: "settlement option"
  effects :: "effect list"
  token_listeners :: "nat option list"
  handler_threw :: bool

text \<open>
  What \<open>spawn\<close> returns: \<open>null\<close>, or a process with its \<open>pid\<close> and, for \<open>stdout\<close> and
  \<open>stderr\<close> in this order, whether the stream is there (not \<open>null\<close>).
\<close>

datatype spawn_result =
    SpawnNull
  | SpawnProc "nat option" bool bool

text \<open>
  What happens to a call: the data of the two streams, the process's \<open>error\<close> (with the
  message of the error) and \<open>close\<close> (with the exit code, \<open>None\<close> for \<open>null\<close>), and the
  firing of the cancellation token.
\<close>

datatype proc_event =
    StdoutData string
  | StderrData string
  | ProcError string
  | ProcClose "int option"
  | TokenCancelled

definition SFDX_MISSING_MESSAGE :: string where
  "SFDX_MISSING_MESSAGE =
     ''ForceCode: The SFDX CLI could not be found. Please download from [https://developer.salesforce.com/tools/sfdxcli](https://developer.salesforce.com/tools/sfdxcli) and install, then restart Visual Studio Code.''"

definition add_effects :: "effect list \<Rightarrow> run_state \<Rightarrow> run_state" where
  "add_effects es st = st\<lparr>effects := effects st @ es\<rparr>"

text \<open>\<open>resolve\<close> and \<open>reject\<close>: only the first call settles the promise.\<close>

definition settle :: "settlement \<Rightarrow> run_state \<Rightarrow> run_state" where
  "settle s st = (case promise st of None \<Rightarrow> st\<lparr>promise := Some s\<rparr> | Some old \<Rightarrow> st)"

subsection \<open>The promise executor\<close>

text \<open>
  Lines 104 to 113. \<open>token\<close> is \<open>None\<close> when the caller passes no cancellation token, and
  otherwise the listeners its emitter already has; \<open>on('cancelled', killPromise)\<close> appends
  one. Without a process, or without one of its two streams, the promise is rejected at
  once and nothing is registered. \<open>spawn_unusable\<close> is the test of line 106:
  \<open>cmd === null || cmd.stdout === null || cmd.stderr === null\<close>.
\<close>

fun spawn_unusable :: "spawn_result \<Rightarrow> bool" where
  "spawn_unusable SpawnNull = True"
| "spawn_unusable (SpawnProc pid out err) = (\<not> out \<or> \<not> err)"

fun pid_of :: "spawn_result \<Rightarrow> nat option" where
  "pid_of SpawnNull = None"
| "pid_of (SpawnProc pid out err) = pid"

definition runCommand_start :: "nat option list option \<Rightarrow> spawn_result \<Rightarrow> run_state" where
  "runCommand_start token cmd =
     (let before = (case token of None \<Rightarrow> [] | Some ls \<Rightarrow> ls);
          st0 = \<lparr>handlers_attached = False, stdout_text = [], sfdxNotFound = False,
                 promise = None, effects = [], token_listeners = before,
                 handler_threw = False\<rparr>
      in if spawn_unusable cmd then settle (Rejected NoReason) st0
         else st0\<lparr>handlers_attached := True,
                  token_listeners :=
                    (case token of None \<Rightarrow> [] | Some ls \<Rightarrow> ls @ [pid_of cmd])\<rparr>)"

subsection \<open>The handlers\<close>

text \<open>\<open>cmd.stdout.on('data', ...)\<close>\<close>

definition on_stdout :: "string \<Rightarrow> run_state \<Rightarrow> run_state" where
  "on_stdout data st = st\<lparr>stdout_text := stdout_text st @ data\<rparr>"

text \<open>\<open>cmd.stderr.on('data', ...)\<close>: the flag is assigned for every chunk that is not empty.\<close>

definition on_stderr :: "string \<Rightarrow> run_state \<Rightarrow> run_state" where
  "on_stderr theErr st =
     (let st1 = add_effects [WriteLog theErr] st
      in if theErr \<noteq> []
         then st1\<lparr>sfdxNotFound :=
                    (includes_str (toLowerCase theErr) ''not found'' \<or>
                     includes_str (toLowerCase theErr) ''not recognized'')\<rparr>
         else st1)"

text \<open>\<open>cmd.on('error', ...)\<close>; the event carries an error, of which the message is read.\<close>

definition on_error :: "string \<Rightarrow> run_state \<Rightarrow> run_state" where
  "on_error msg st =
     (add_effects [WriteLog msg] st)\<lparr>sfdxNotFound := includes_str msg ''ENOENT''\<rparr>"

text \<open>
  The condition of line 147. \<open>code\<close> is \<open>None\<close> for \<open>null\<close> (the process was ended by a
  signal); \<open>code && code > 0\<close> needs a code that is neither \<open>null\<close> nor 0.
\<close>

definition should_reject :: "js_runtime \<Rightarrow> bool \<Rightarrow> int option \<Rightarrow> json option \<Rightarrow> bool" where
  "should_reject rt bypassReject code json =
     (if bypassReject then False
      else ((case code of None \<Rightarrow> False | Some c \<Rightarrow> c \<noteq> 0 \<and> 0 < c \<and> \<not> truthy json)
            \<or> (gt_zero rt (opt_prop json ''status'') \<and> \<not> truthy (opt_prop json ''result''))
            \<or> gt_zero rt (opt_prop json ''exitCode'')))"

text \<open>
  The body of \<open>json.result.forEach\<close>: \<open>errMess += res.error + ' '\<close>. Reading \<open>error\<close> from
  \<open>null\<close> raises a TypeError (\<open>None\<close>).
\<close>

fun collect_errors :: "js_runtime \<Rightarrow> string \<Rightarrow> json list \<Rightarrow> string option" where
  "collect_errors rt errMess [] = Some errMess"
| "collect_errors rt errMess (res # rest) =
     (if res = JNull then None
      else collect_errors rt (errMess @ to_string rt (get_prop res ''error'') @ '' '') rest)"

text \<open>
  Lines 154 to 160. The outer \<open>None\<close> is a TypeError: \<open>forEach\<close> exists on arrays only, so
  a string or an object whose \<open>length\<close> is above 0 raises. The inner \<open>None\<close> is an
  \<open>errMess\<close> left \<open>undefined\<close>.
\<close>

definition build_errMess :: "js_runtime \<Rightarrow> json option \<Rightarrow> string option option" where
  "build_errMess rt json =
     (let result = opt_prop json ''result''
      in if gt_zero rt (opt_prop result ''length'')
         then (case result of
                 Some (JArr items) \<Rightarrow> map_option Some (collect_errors rt [] items)
               | _ \<Rightarrow> None)
         else Some None)"

text \<open>\<open>errMess || json?.message || error?.message || error\<close>\<close>

definition reject_reason :: "js_error \<Rightarrow> string option \<Rightarrow> json option \<Rightarrow> reason" where
  "reject_reason err errMess json =
     (let from_error = (if err_message err \<noteq> [] then ReasonString (err_message err)
                        else ReasonError err);
          from_json = (case opt_prop json ''message'' of
                         None \<Rightarrow> from_error
                       | Some m \<Rightarrow> if truthy (Some m) then ReasonJson m else from_error)
      in case errMess of
           None \<Rightarrow> from_json
         | Some m \<Rightarrow> if m \<noteq> [] then ReasonString m else from_json)"

text \<open>\<open>cmd.on('close', ...)\<close>\<close>

definition on_close :: "js_runtime \<Rightarrow> invocation \<Rightarrow> int option \<Rightarrow> run_state \<Rightarrow> run_state" where
  "on_close rt call code st =
     (let json = JSON_parse rt (stdout_text st);
          st1 = (case json of
                   None \<Rightarrow> add_effects
                     [WriteLog (''No parsable results from command \"'' @ inv_fullCommand call @ ''\"'')] st
                 | Some j \<Rightarrow> st);
          st2 = (if sfdxNotFound st1 then add_effects [ShowError SFDX_MISSING_MESSAGE] st1
                 else st1)
      in if should_reject rt (inv_bypassReject call) code json
         then (case build_errMess rt json of
                 None \<Rightarrow> st2\<lparr>handler_threw := True\<rparr>
               | Some errMess \<Rightarrow> settle (Rejected (reject_reason (inv_error call) errMess json)) st2)
         else settle (Resolved (opt_prop json ''result'')) st2)"

text \<open>
  \<open>killPromise\<close>, lines 169 to 176: a line for the log, and the signal to the tree of the
  process.
\<close>

definition killPromise :: "nat option \<Rightarrow> effect list" where
  "killPromise pid = [WriteLog ''Cancelling task...'', TreeKill pid]"

text \<open>
  Modelled from the spec: the firing of the token (the class \<open>FCCancellationToken\<close> is
  declared in another file of the repository). The token holds an emitter of the one
  event \<open>cancelled\<close>; firing it calls every listener, oldest first. Nothing in
  \<open>runCommand\<close> removes a listener.
\<close>

definition on_cancelled :: "run_state \<Rightarrow> run_state" where
  "on_cancelled st = add_effects (concat (map killPromise (token_listeners st))) st"

text \<open>
  One event. The process events reach a handler only when the handlers were attached;
  the token fires whether or not they were.
\<close>

fun on_event :: "js_runtime \<Rightarrow> invocation \<Rightarrow> proc_event \<Rightarrow> run_state \<Rightarrow> run_state" where
  "on_event rt call TokenCancelled st = on_cancelled st"
| "on_event rt call (StdoutData d) st = (if handlers_attached st then on_stdout d st else st)"
| "on_event rt call (StderrData d) st = (if handlers_attached st then on_stderr d st else st)"
| "on_event rt call (ProcError m) st = (if handlers_attached st then on_error m st else st)"
| "on_event rt call (ProcClose code) st =
     (if handlers_attached st then on_close rt call code st else st)"

fun run_events :: "js_runtime \<Rightarrow> invocation \<Rightarrow> proc_event list \<Rightarrow> run_state \<Rightarrow> run_state" where
  "run_events rt call [] st = st"
| "run_events rt call (ev # evs) st = run_events rt call evs (on_event rt call ev st)"

text \<open>The handlers are attached and the promise is pending.\<close>

definition running :: "run_state \<Rightarrow> bool" where
  "running st = (handlers_attached st \<and> promise st = None)"

fun is_close :: "proc_event \<Rightarrow> bool" where
  "is_close (ProcClose code) = True"
| "is_close ev = False"

fun is_cancel :: "proc_event \<Rightarrow> bool" where
  "is_cancel TokenCancelled = True"
| "is_cancel ev = False"

text \<open>The errors shown to the user, and the signals sent, among a list of effects.\<close>

fun shown_errors :: "effect list \<Rightarrow> string list" where
  "shown_errors [] = []"
| "shown_errors (ShowError m # es) = m # shown_errors es"
| "shown_errors (e # es) = shown_errors es"

fun kills_sent :: "effect list \<Rightarrow> nat option list" where
  "kills_sent [] = []"
| "kills_sent (TreeKill p # es) = p # kills_sent es"
| "kills_sent (e # es) = kills_sent es"

subsection \<open>The outcome as the specification names it\<close>

text \<open>
  The specification speaks of three outcomes. The promise has two ways to settle, read
  here as success and failure; no settlement stands for \<open>ToolNotFound\<close>.
\<close>

datatype command_outcome =
    Success "json option"
  | Failure reason
  | ToolNotFound

fun outcome_of :: "settlement \<Rightarrow> command_outcome" where
  "outcome_of (Resolved v) = Success v"
| "outcome_of (Rejected r) = Failure r"

text \<open>
  The message of a failure in the specification's words: the errors of the items of the
  result list, in order, when that list is not empty; else the message of the JSON; else
  the error made before the call.
\<close>

definition failure_precedence :: "js_runtime \<Rightarrow> js_error \<Rightarrow> json \<Rightarrow> reason" where
  "failure_precedence rt err j =
     (case get_prop j ''result'' of
        Some (JArr (item # items)) \<Rightarrow>
          ReasonString (concat (map (\<lambda>i. to_string rt (get_prop i ''error'')) (item # items)))
      | _ \<Rightarrow> (case get_prop j ''message'' of
                Some m \<Rightarrow> if truthy (Some m) then ReasonJson m else ReasonError err
              | None \<Rightarrow> ReasonError err))"

text \<open>
  The same precedence with what lines 156 to 159 build for the first rung: every item's
  error is followed by one space.
\<close>

definition spaced_failure_precedence :: "js_runtime \<Rightarrow> js_error \<Rightarrow> json \<Rightarrow> reason" where
  "spaced_failure_precedence rt err j =
     (case get_prop j ''result'' of
        Some (JArr (item # items)) \<Rightarrow>
          ReasonString
            (concat (map (\<lambda>i. to_string rt (get_prop i ''error'') @ '' '') (item # items)))
      | _ \<Rightarrow> (case get_prop j ''message'' of
                Some m \<Rightarrow> if truthy (Some m) then ReasonJson m else ReasonError err
              | None \<Rightarrow> ReasonError err))"

text \<open>
  A result that is a list of items none of which is \<open>null\<close>, or no result at all (absent
  or falsy).
\<close>

fun item_list_or_none :: "json option \<Rightarrow> bool" where
  "item_list_or_none (Some (JArr items)) = (JNull \<notin> set items)"
| "item_list_or_none v = (\<not> truthy v)"

text \<open>A field that holds a number above zero.\<close>

fun positive_number :: "json option \<Rightarrow> bool" where
  "positive_number (Some (JNum r)) = (0 < r)"
| "positive_number v = False"

section \<open>checkStatus\<close>

text \<open>
  What \<open>await batch.check()\<close> gives: a result (\<open>None\<close> for \<open>undefined\<close> or \<open>null\<close>), or an
  exception. Of a result the loop reads four fields, each \<open>undefined\<close> or a value.
\<close>

record batch_info =
  bi_state :: "json option"
  bi_status :: "json option"
  bi_numberRecordsProcessed :: "json option"
  bi_numberRecordsFailed :: "json option"

datatype check_result =
    CheckReturns "batch_info option"
  | CheckRaises

text \<open>The message posted to the panel.\<close>

record progress_message =
  msg_state :: "json option"
  msg_processed :: "json option"
  msg_failures :: "json option"

definition progress_of :: "batch_info \<Rightarrow> progress_message" where
  "progress_of res =
     \<lparr>msg_state = bi_state res,
      msg_processed = bi_numberRecordsProcessed res,
      msg_failures = bi_numberRecordsFailed res\<rparr>"

text \<open>
  \<open>timer_armed\<close>: a timeout is pending. \<open>checks_made\<close> counts the calls of \<open>batch.check()\<close>,
  \<open>posted\<close> are the messages sent, oldest first, and \<open>escaped\<close> the exceptions that left the
  timer's callback.
\<close>

datatype poll_exception =
    CheckFailed
  | ResultUnreadable

record poller_state =
  timer_armed :: bool
  checks_made :: nat
  posted :: "progress_message list"
  escaped :: "poll_exception list"

definition poller_init :: poller_state where
  "poller_init = \<lparr>timer_armed = False, checks_made = 0, posted = [], escaped = []\<rparr>"

text \<open>\<open>checkStatus()\<close>: the pending timeout, if any, is cleared and a new one is set.\<close>

definition checkStatus :: "poller_state \<Rightarrow> poller_state" where
  "checkStatus st = st\<lparr>timer_armed := True\<rparr>"

text \<open>
  The \<open>try\<close> block of the callback, with the \<open>n\<close>-th answer of \<open>batch.check()\<close>: \<open>Inl\<close> is
  the exception that ends it.
\<close>

definition timer_body :: "check_result \<Rightarrow> poller_state \<Rightarrow> poll_exception + poller_state" where
  "timer_body answer st =
     (case answer of
        CheckRaises \<Rightarrow> Inl CheckFailed
      | CheckReturns None \<Rightarrow> Inl ResultUnreadable
      | CheckReturns (Some res) \<Rightarrow>
          (let st1 = st\<lparr>posted := posted st @ [progress_of res]\<rparr>
           in if bi_status res \<noteq> Some (JStr ''Completed'') then Inr (checkStatus st1)
              else Inr st1))"

text \<open>The callback of the timeout: \<open>try { ... } catch (e) {}\<close>.\<close>

definition timer_callback :: "(nat \<Rightarrow> check_result) \<Rightarrow> poller_state \<Rightarrow> poller_state" where
  "timer_callback check st =
     (let st1 = st\<lparr>timer_armed := False, checks_made := Suc (checks_made st)\<rparr>
      in case timer_body (check (checks_made st)) st1 of
           Inl e \<Rightarrow> st1
         | Inr st2 \<Rightarrow> st2)"

text \<open>
  The loop: while a timeout is pending it fires. \<open>check n\<close> is the answer to call number
  \<open>n\<close>, counted from 0. The loop need not end; \<open>None\<close> is a loop that goes on for ever.
\<close>

partial_function (option) run_timers :: "(nat \<Rightarrow> check_result) \<Rightarrow> poller_state \<Rightarrow> poller_state option" where
  "run_timers check st =
     (if timer_armed st then run_timers check (timer_callback check st) else Some st)"

section \<open>Inputs for the closed examples\<close>

text \<open>
  A runtime for the examples: it parses the four outputs the examples use and rejects
  every other text; its two conversions are not reached by any example.
\<close>

definition stub_parse :: "string \<Rightarrow> json option" where
  "stub_parse s =
     (if s = ''{\"status\":0,\"result\":\"ok\"}''
      then Some (JObj [(''status'', JNum 0), (''result'', JStr ''ok'')])
      else if s = ''{\"status\":1,\"message\":\"boom\"}''
      then Some (JObj [(''status'', JNum 1), (''message'', JStr ''boom'')])
      else if s = ''{\"exitCode\":1,\"result\":[{\"error\":\"a\"},{\"error\":\"b\"}]}''
      then Some (JObj [(''exitCode'', JNum 1),
                       (''result'', JArr [JObj [(''error'', JStr ''a'')],
                                          JObj [(''error'', JStr ''b'')]])])
      else if s = ''{\"status\":1,\"result\":[{\"error\":\"a\"}]}''
      then Some (JObj [(''status'', JNum 1),
                       (''result'', JArr [JObj [(''error'', JStr ''a'')]])])
      else None)"

definition stub_runtime :: js_runtime where
  "stub_runtime =
     \<lparr>JSON_parse = stub_parse,
      coerced_gt_zero = (\<lambda>v. False),
      coerced_to_string = (\<lambda>v. [])\<rparr>"

definition example_env :: environment where
  "example_env =
     \<lparr>env_isWindows = False, env_username = Some ''dev@example.org'',
      env_stack = ''Error at DXService.runCommand''\<rparr>"

text \<open>\<open>getOrgInfo\<close> rejects on failure; \<open>getDeployErrors\<close> passes \<open>bypassReject\<close>.\<close>

definition example_call :: invocation where
  "example_call = new_invocation example_env ''org:display'' False False"

definition example_call_bypass :: invocation where
  "example_call_bypass = new_invocation example_env ''source:deploy:report -i 0Af'' True True"

text \<open>A started process with both streams, and a fresh cancellation token.\<close>

definition example_start :: run_state where
  "example_start = runCommand_start (Some []) (SpawnProc (Some 4242) True True)"

text \<open>Two answers of \<open>batch.check()\<close> and two scripted checks for the poller.\<close>

definition batch_in_progress :: batch_info where
  "batch_in_progress =
     \<lparr>bi_state = Some (JStr ''InProgress''), bi_status = Some (JStr ''InProgress''),
      bi_numberRecordsProcessed = Some (JNum 4), bi_numberRecordsFailed = Some (JNum 0)\<rparr>"

definition batch_completed :: batch_info where
  "batch_completed =
     \<lparr>bi_state = Some (JStr ''Completed''), bi_status = Some (JStr ''Completed''),
      bi_numberRecordsProcessed = Some (JNum 10), bi_numberRecordsFailed = Some (JNum 1)\<rparr>"

fun check_twice_then_done :: "nat \<Rightarrow> check_result" where
  "check_twice_then_done n =
     (if n < 2 then CheckReturns (Some batch_in_progress) else CheckReturns (Some batch_completed))"

fun check_raises_second :: "nat \<Rightarrow> check_result" where
  "check_raises_second n =
     (if n = 0 then CheckReturns (Some batch_in_progress) else CheckRaises)"

text \<open>
  Answers that carry \<open>state\<close>, the field the loop reports, and no \<open>status\<close>; and a check
  that answers \<open>InProgress\<close> twice and \<open>Completed\<close> from its third call on.
\<close>

definition state_in_progress :: batch_info where
  "state_in_progress =
     \<lparr>bi_state = Some (JStr ''InProgress''), bi_status = None,
      bi_numberRecordsProcessed = Some (JNum 4), bi_numberRecordsFailed = Some (JNum 0)\<rparr>"

definition state_completed :: batch_info where
  "state_completed =
     \<lparr>bi_state = Some (JStr ''Completed''), bi_status = None,
      bi_numberRecordsProcessed = Some (JNum 10), bi_numberRecordsFailed = Some (JNum 1)\<rparr>"

fun check_state_only :: "nat \<Rightarrow> check_result" where
  "check_state_only n =
     (if n < 2 then CheckReturns (Some state_in_progress) else CheckReturns (Some state_completed))"

text \<open>A token on which an earlier call, of the process 4242, has left its listener.\<close>

definition example_start_reused :: run_state where
  "example_start_reused = runCommand_start (Some [Some 4242]) (SpawnProc (Some 4343) True True)"

section \<open>The sentinel: lemmas\<close>

lemma split_from_nonempty: "split_from sep piece s \<noteq> []"
  by (induction sep piece s rule: split_from.induct) auto

lemma join_str_Cons: "ps \<noteq> [] \<Longrightarrow> join_str (p # ps) sep = p @ sep @ join_str ps sep"
  by (cases ps) auto

lemma join_split_from:
  "join_str (split_from sep piece s) r = piece @ join_str (split_from sep [] s) r"
proof (induction s arbitrary: piece)
  case Nil
  then show ?case by simp
next
  case (Cons c cs)
  show ?case
  proof (cases "sep \<noteq> [] \<and> prefix sep (c # cs)")
    case True
    then show ?thesis by (simp add: join_str_Cons split_from_nonempty)
  next
    case False
    have "join_str (split_from sep (piece @ [c]) cs) r
            = (piece @ [c]) @ join_str (split_from sep [] cs) r"
      by (rule Cons.IH)
    moreover have "join_str (split_from sep [c] cs) r = [c] @ join_str (split_from sep [] cs) r"
      by (rule Cons.IH)
    moreover have "split_from sep piece (c # cs) = split_from sep (piece @ [c]) cs"
      by (simp only: split_from.simps False if_False)
    moreover have "split_from sep [] (c # cs) = split_from sep [c] cs"
      by (simp only: split_from.simps False if_False append_Nil)
    ultimately show ?thesis by simp
  qed
qed

text \<open>Splitting and joining replaces, from the left, every occurrence of the separator.\<close>

lemma replace_no_match:
  assumes "\<not> prefix sep (c # u)"
  shows "join_str (split_from sep [] (c # u)) r = c # join_str (split_from sep [] u) r"
proof -
  have "split_from sep [] (c # u) = split_from sep [c] u"
    using assms by simp
  then show ?thesis
    using join_split_from [of sep "[c]" u r] by simp
qed

lemma replace_match:
  assumes "sep \<noteq> []"
  shows "join_str (split_from sep [] (sep @ u)) r = r @ join_str (split_from sep [] u) r"
proof -
  obtain c cs where sep: "sep = c # cs"
    using assms by (cases sep) auto
  have "split_from sep [] (sep @ u) = [] # split_from sep [] u"
    unfolding sep by simp
  then show ?thesis
    by (simp add: join_str_Cons split_from_nonempty)
qed

lemma encode_arg_Nil: "encode_arg [] = []"
  by (simp add: encode_arg_def split_str_def)

lemma encode_arg_space: "encode_arg (CHR '' '' # t) = SPACE_SENTINEL @ encode_arg t"
  using replace_match [of "'' ''" t SPACE_SENTINEL]
  by (simp add: encode_arg_def split_str_def)

lemma encode_arg_other: "c \<noteq> CHR '' '' \<Longrightarrow> encode_arg (c # t) = c # encode_arg t"
  using replace_no_match [of "'' ''" c t SPACE_SENTINEL]
  by (simp add: encode_arg_def split_str_def)

lemma SPACE_SENTINEL_nonempty: "SPACE_SENTINEL \<noteq> []"
  by (simp add: SPACE_SENTINEL_def)

lemma decode_arg_Nil: "decode_arg [] = []"
  by (simp add: decode_arg_def split_str_def SPACE_SENTINEL_nonempty)

lemma decode_arg_sentinel: "decode_arg (SPACE_SENTINEL @ u) = CHR '' '' # decode_arg u"
  using replace_match [OF SPACE_SENTINEL_nonempty, of u "'' ''"]
  by (simp add: decode_arg_def split_str_def SPACE_SENTINEL_nonempty)

lemma decode_arg_other:
  "\<not> prefix SPACE_SENTINEL (c # u) \<Longrightarrow> decode_arg (c # u) = c # decode_arg u"
  using replace_no_match [of SPACE_SENTINEL c u "'' ''"]
  by (simp add: decode_arg_def split_str_def SPACE_SENTINEL_nonempty)

text \<open>
  A character of the encoded text that is not \<open>#\<close> was a character of the path; a \<open>#\<close> was
  a \<open>#\<close> of the path or stands for a space.
\<close>

lemma encode_head:
  assumes "prefix (x # xs) (encode_arg t)" and "x \<noteq> CHR ''#''"
  shows "\<exists>t'. t = x # t' \<and> prefix xs (encode_arg t')"
proof (cases t)
  case Nil
  with assms show ?thesis by (simp add: encode_arg_Nil)
next
  case (Cons a t')
  show ?thesis
  proof (cases "a = CHR '' ''")
    case True
    with assms Cons show ?thesis by (simp add: encode_arg_space SPACE_SENTINEL_def)
  next
    case False
    with assms Cons show ?thesis by (simp add: encode_arg_other)
  qed
qed

lemma encode_head_hash:
  assumes "prefix [CHR ''#''] (encode_arg t)"
  shows "\<exists>t'. t = CHR ''#'' # t' \<or> t = CHR '' '' # t'"
proof (cases t)
  case Nil
  with assms show ?thesis by (simp add: encode_arg_Nil)
next
  case (Cons a t')
  show ?thesis
  proof (cases "a = CHR '' ''")
    case True
    with Cons show ?thesis by simp
  next
    case False
    with assms Cons show ?thesis by (simp add: encode_arg_other)
  qed
qed

text \<open>
  A sentinel that starts at a character of the path, in the encoded text, was in the path
  already, or the path has the sentinel's first ten characters and then a space there.
\<close>

lemma spurious_sentinel:
  assumes "prefix SPACE_SENTINEL (c # encode_arg t)"
  shows "prefix SPACE_SENTINEL (c # t) \<or> prefix ''#FC*SPACE* '' (c # t)"
proof -
  from assms have c: "c = CHR ''#''" and p0: "prefix ''FC*SPACE*#'' (encode_arg t)"
    by (auto simp: SPACE_SENTINEL_def)
  from encode_head [OF p0] obtain t1
    where t1: "t = CHR ''F'' # t1" "prefix ''C*SPACE*#'' (encode_arg t1)" by auto
  from encode_head [OF t1(2)] obtain t2
    where t2: "t1 = CHR ''C'' # t2" "prefix ''*SPACE*#'' (encode_arg t2)" by auto
  from encode_head [OF t2(2)] obtain t3
    where t3: "t2 = CHR ''*'' # t3" "prefix ''SPACE*#'' (encode_arg t3)" by auto
  from encode_head [OF t3(2)] obtain t4
    where t4: "t3 = CHR ''S'' # t4" "prefix ''PACE*#'' (encode_arg t4)" by auto
  from encode_head [OF t4(2)] obtain t5
    where t5: "t4 = CHR ''P'' # t5" "prefix ''ACE*#'' (encode_arg t5)" by auto
  from encode_head [OF t5(2)] obtain t6
    where t6: "t5 = CHR ''A'' # t6" "prefix ''CE*#'' (encode_arg t6)" by auto
  from encode_head [OF t6(2)] obtain t7
    where t7: "t6 = CHR ''C'' # t7" "prefix ''E*#'' (encode_arg t7)" by auto
  from encode_head [OF t7(2)] obtain t8
    where t8: "t7 = CHR ''E'' # t8" "prefix ''*#'' (encode_arg t8)" by auto
  from encode_head [OF t8(2)] obtain t9
    where t9: "t8 = CHR ''*'' # t9" "prefix ''#'' (encode_arg t9)" by auto
  from encode_head_hash [OF t9(2)] obtain t'
    where "t9 = CHR ''#'' # t' \<or> t9 = CHR '' '' # t'" by auto
  with c t1 t2 t3 t4 t5 t6 t7 t8 t9 show ?thesis
    by (auto simp: SPACE_SENTINEL_def)
qed

lemma round_trip_safe_tl: "round_trip_safe (c # s) \<Longrightarrow> round_trip_safe s"
  by (simp add: round_trip_safe_def)

text \<open>
  C7, as the claim states it, fails: the path \<open>#FC*SPACE* \<close> (the sentinel's first ten
  characters and a space) does not contain the sentinel, its encoding is
  \<open>#FC*SPACE*#FC*SPACE*#\<close>, and decoding finds the sentinel at the very start, which gives a
  space followed by \<open>FC*SPACE*#\<close>.
\<close>

theorem sentinel_round_trip_counterexample:
  "\<not> includes_str ''#FC*SPACE* '' SPACE_SENTINEL
   \<and> encode_arg ''#FC*SPACE* '' = ''#FC*SPACE*#FC*SPACE*#''
   \<and> decode_arg (encode_arg ''#FC*SPACE* '') = '' FC*SPACE*#''
   \<and> decode_arg (encode_arg ''#FC*SPACE* '') \<noteq> ''#FC*SPACE* ''"
  by (simp add: decode_arg_def encode_arg_def split_str_def SPACE_SENTINEL_def)

text \<open>
  C7, amended: for every string that contains neither the sentinel \<open>#FC*SPACE*#\<close> nor the
  sentinel's first ten characters \<open>#FC*SPACE*\<close> directly followed by a space, decoding the
  encoding gives the string back.
\<close>

theorem sentinel_round_trip:
  "round_trip_safe s \<Longrightarrow> decode_arg (encode_arg s) = s"
proof (induction s)
  case Nil
  show ?case by (simp add: encode_arg_Nil decode_arg_Nil)
next
  case (Cons c s)
  from Cons have IH: "decode_arg (encode_arg s) = s"
    using round_trip_safe_tl by blast
  show ?case
  proof (cases "c = CHR '' ''")
    case True
    then show ?thesis by (simp add: encode_arg_space decode_arg_sentinel IH)
  next
    case False
    have "\<not> prefix SPACE_SENTINEL (c # encode_arg s)"
    proof
      assume "prefix SPACE_SENTINEL (c # encode_arg s)"
      from spurious_sentinel [OF this] Cons.prems show False
        by (auto simp: round_trip_safe_def)
    qed
    with False show ?thesis by (simp add: encode_arg_other decode_arg_other IH)
  qed
qed

theorem sentinel_round_trip_witness:
  "round_trip_safe ''/my dir/exec Anon.tmp''
   \<and> decode_arg (encode_arg ''/my dir/exec Anon.tmp'') = ''/my dir/exec Anon.tmp''"
  using sentinel_round_trip [of "''/my dir/exec Anon.tmp''"]
  by (simp add: round_trip_safe_def SPACE_SENTINEL_def)

text \<open>
  The two halves meet in the command line: \<open>execAnon\<close> encodes the path, \<open>runCommand\<close>
  appends the user name and \<open>--json\<close>, splits at the spaces and decodes every argument.
\<close>

lemma execAnon_command_line:
  "fullCommand_of example_env (execAnon_cmdString ''/my dir/a.tmp'') True
     = ''sfdx force:apex:execute --apexcodefile /my#FC*SPACE*#dir/a.tmp --targetusername dev@example.org --json''
   \<and> commandName_of (fullCommand_of example_env (execAnon_cmdString ''/my dir/a.tmp'') True) = ''sfdx''
   \<and> args_of (fullCommand_of example_env (execAnon_cmdString ''/my dir/a.tmp'') True)
       = [''force:apex:execute'', ''--apexcodefile'', ''/my dir/a.tmp'', ''--targetusername'',
          ''dev@example.org'', ''--json'']"
  by (simp add: fullCommand_of_def execAnon_cmdString_def example_env_def commandName_of_def
        args_of_def encode_arg_def decode_arg_def split_str_def SPACE_SENTINEL_def)

section \<open>runCommand: lemmas\<close>

lemmas handler_defs =
  on_stdout_def on_stderr_def on_error_def on_close_def on_cancelled_def killPromise_def
  add_effects_def settle_def should_reject_def build_errMess_def reject_reason_def

lemma lower_sh_not_found: "toLowerCase ''sh: 1: sfdx: not found'' = ''sh: 1: sfdx: not found''"
  by (simp add: toLowerCase_def toLowerCase_char_def)

lemma lower_update_not_found:
  "toLowerCase ''warning: update not found'' = ''warning: update not found''"
  by (simp add: toLowerCase_def toLowerCase_char_def)

lemma lower_not_recognized:
  "toLowerCase ''sfdx is not recognized as an internal or external command,''
     = ''sfdx is not recognized as an internal or external command,''"
  by (simp add: toLowerCase_def toLowerCase_char_def)

lemma lower_operable:
  "toLowerCase ''operable program or batch file.'' = ''operable program or batch file.''"
  by (simp add: toLowerCase_def toLowerCase_char_def)

subsection \<open>From the start to the close\<close>

lemma running_start: "\<not> spawn_unusable cmd \<Longrightarrow> running (runCommand_start token cmd)"
  by (simp add: running_def runCommand_start_def)

lemma running_on_event: "running st \<Longrightarrow> \<not> is_close ev \<Longrightarrow> running (on_event rt call ev st)"
  by (cases ev)
     (simp_all add: running_def on_stdout_def on_stderr_def on_error_def on_cancelled_def
        add_effects_def Let_def)

lemma running_run_events:
  "running st \<Longrightarrow> \<forall>ev\<in>set evs. \<not> is_close ev \<Longrightarrow> running (run_events rt call evs st)"
  by (induction evs arbitrary: st) (simp_all add: running_on_event)

lemma promise_add_effects [simp]: "promise (add_effects es st) = promise st"
  by (simp add: add_effects_def)

lemma bypass_never_rejects [simp]: "should_reject rt True code json = False"
  by (simp add: should_reject_def)

lemma new_invocation_sel [simp]:
  "inv_bypassReject (new_invocation env c tu b) = b"
  "inv_error (new_invocation env c tu b) = new_Error (env_stack env)"
  "inv_fullCommand (new_invocation env c tu b) = fullCommand_of env c tu"
  by (simp_all add: new_invocation_def)

lemma attached_on_event: "handlers_attached (on_event rt call ev st) = handlers_attached st"
  by (cases ev)
     (simp_all add: on_stdout_def on_stderr_def on_error_def on_cancelled_def on_close_def
        add_effects_def settle_def Let_def split: option.splits)

lemma attached_run_events: "handlers_attached (run_events rt call evs st) = handlers_attached st"
  by (induction evs arbitrary: st) (simp_all add: attached_on_event)

subsection \<open>The notification\<close>

lemma shown_errors_append: "shown_errors (a @ b) = shown_errors a @ shown_errors b"
  by (induction a rule: shown_errors.induct) simp_all

lemma shown_errors_kills: "shown_errors (concat (map killPromise ps)) = []"
  by (induction ps) (simp_all add: killPromise_def shown_errors_append)

lemma shown_errors_start: "shown_errors (effects (runCommand_start token cmd)) = []"
  by (simp add: runCommand_start_def settle_def Let_def)

lemma shown_errors_on_event:
  "\<not> is_close ev \<Longrightarrow> shown_errors (effects (on_event rt call ev st)) = shown_errors (effects st)"
  by (cases ev)
     (simp_all add: on_stdout_def on_stderr_def on_error_def on_cancelled_def
        add_effects_def Let_def shown_errors_append shown_errors_kills)

lemma shown_errors_run_events:
  "\<forall>ev\<in>set evs. \<not> is_close ev \<Longrightarrow>
     shown_errors (effects (run_events rt call evs st)) = shown_errors (effects st)"
  by (induction evs arbitrary: st) (simp_all add: shown_errors_on_event)

lemma on_close_effects:
  "effects (on_close rt call code st) =
     effects st
     @ (case JSON_parse rt (stdout_text st) of
          None \<Rightarrow> [WriteLog (''No parsable results from command \"'' @ inv_fullCommand call @ ''\"'')]
        | Some j \<Rightarrow> [])
     @ (if sfdxNotFound st then [ShowError SFDX_MISSING_MESSAGE] else [])"
  by (simp add: on_close_def add_effects_def settle_def Let_def split: option.splits)

text \<open>The flag decides the notification and nothing else: the promise settles without it.\<close>

lemma on_close_promise_flag:
  "promise (on_close rt call code (st\<lparr>sfdxNotFound := b\<rparr>)) = promise (on_close rt call code st)"
  by (simp add: on_close_def add_effects_def settle_def Let_def split: option.splits)

text \<open>
  C1, as the claim states it, fails: with the flag set the promise settles as it does
  without it, and the way it settles follows the exit code and the output. A spawn that
  fails with ENOENT closes with code -2 and the promise resolves with \<open>undefined\<close>; a shell
  that prints \<open>not found\<close> and exits with 127 rejects with the error made before the call;
  a warning on stderr that happens to hold \<open>not found\<close>, beside a good result and exit
  code 0, resolves with the result.
\<close>

theorem tool_not_found_counterexample:
  "sfdxNotFound (run_events stub_runtime example_call [ProcError ''spawn sfdx ENOENT''] example_start)
   \<and> map_option outcome_of (promise (run_events stub_runtime example_call
        [ProcError ''spawn sfdx ENOENT'', ProcClose (Some (- 2))] example_start))
       = Some (Success None)
   \<and> sfdxNotFound (run_events stub_runtime example_call
        [StderrData ''sh: 1: sfdx: not found''] example_start)
   \<and> map_option outcome_of (promise (run_events stub_runtime example_call
        [StderrData ''sh: 1: sfdx: not found'', ProcClose (Some 127)] example_start))
       = Some (Failure (ReasonError (new_Error ''Error at DXService.runCommand'')))
   \<and> sfdxNotFound (run_events stub_runtime example_call
        [StderrData ''warning: update not found'', StdoutData ''{\"status\":0,\"result\":\"ok\"}'']
        example_start)
   \<and> map_option outcome_of (promise (run_events stub_runtime example_call
        [StderrData ''warning: update not found'', StdoutData ''{\"status\":0,\"result\":\"ok\"}'',
         ProcClose (Some 0)] example_start))
       = Some (Success (Some (JStr ''ok'')))"
  by (simp add: example_call_def example_start_def example_env_def runCommand_start_def
        stub_runtime_def stub_parse_def new_invocation_def new_Error_def
        handler_defs lower_sh_not_found lower_update_not_found)

text \<open>
  C1, amended: for every invocation in which the tool-missing flag is true when the
  process closes, exactly one remediation notification is raised, whatever the exit code
  and the \<open>bypassReject\<close> setting are; the promise is settled as it would be with the flag
  false (there is no outcome of its own for a missing tool).
\<close>

theorem missing_tool_notified_once:
  assumes "st = run_events rt call evs (runCommand_start token cmd)"
    and "\<not> spawn_unusable cmd"
    and "\<forall>ev\<in>set evs. \<not> is_close ev"
    and "sfdxNotFound st"
  shows "shown_errors (effects (on_event rt call (ProcClose code) st)) = [SFDX_MISSING_MESSAGE]
         \<and> promise (on_event rt call (ProcClose code) st)
             = promise (on_event rt call (ProcClose code) (st\<lparr>sfdxNotFound := False\<rparr>))"
proof -
  have att: "handlers_attached st"
    using assms(1,2) by (simp add: attached_run_events runCommand_start_def)
  have "shown_errors (effects st) = []"
    using assms(1,3) by (simp add: shown_errors_run_events shown_errors_start)
  then have "shown_errors (effects (on_close rt call code st)) = [SFDX_MISSING_MESSAGE]"
    using assms(4) by (simp add: on_close_effects shown_errors_append split: option.splits)
  then show ?thesis
    using att by (simp add: on_close_promise_flag)
qed

theorem missing_tool_notified_once_witness:
  "\<not> spawn_unusable (SpawnProc (Some 4242) True True)
   \<and> sfdxNotFound (run_events stub_runtime example_call_bypass
        [StderrData ''sh: 1: sfdx: not found''] example_start)
   \<and> shown_errors (effects (run_events stub_runtime example_call_bypass
        [StderrData ''sh: 1: sfdx: not found'', ProcClose (Some 127)] example_start))
       = [SFDX_MISSING_MESSAGE]
   \<and> promise (run_events stub_runtime example_call_bypass
        [StderrData ''sh: 1: sfdx: not found'', ProcClose (Some 127)] example_start)
       = Some (Resolved None)"
  using missing_tool_notified_once [of
      "run_events stub_runtime example_call_bypass [StderrData ''sh: 1: sfdx: not found''] example_start"
      stub_runtime example_call_bypass "[StderrData ''sh: 1: sfdx: not found'']"
      "Some []" "SpawnProc (Some 4242) True True" "Some 127"]
  by (simp add: example_call_bypass_def example_start_def example_env_def runCommand_start_def
        stub_runtime_def stub_parse_def new_invocation_def new_Error_def
        handler_defs lower_sh_not_found)

subsection \<open>The settlement\<close>

text \<open>
  C2: with \<open>bypassReject\<close> true, the close handler resolves the pending promise with
  \<open>json?.result\<close>, whatever the exit code is and whether or not the output parsed, and no
  exception leaves the handler; so with exit code 3 and an output that does not parse the
  promise resolves with \<open>undefined\<close>.
\<close>

theorem bypass_resolves:
  assumes "inv_bypassReject call" and "running st"
  shows "promise (on_event rt call (ProcClose code) st)
           = Some (Resolved (opt_prop (JSON_parse rt (stdout_text st)) ''result''))
         \<and> handler_threw (on_event rt call (ProcClose code) st) = handler_threw st"
  using assms
  by (simp add: running_def on_close_def settle_def Let_def add_effects_def split: option.splits)

theorem bypass_resolves_witness:
  "inv_bypassReject example_call_bypass
   \<and> running (run_events stub_runtime example_call_bypass [StdoutData ''ERROR running''] example_start)
   \<and> JSON_parse stub_runtime ''ERROR running'' = None
   \<and> promise (run_events stub_runtime example_call_bypass
                 [StdoutData ''ERROR running'', ProcClose (Some 3)] example_start)
       = Some (Resolved None)"
  using bypass_resolves [of example_call_bypass
      "run_events stub_runtime example_call_bypass [StdoutData ''ERROR running''] example_start"
      stub_runtime "Some 3"]
  by (simp add: example_call_bypass_def new_invocation_def example_start_def
        runCommand_start_def running_def on_stdout_def stub_runtime_def stub_parse_def)

lemma positive_number_gt_zero: "positive_number v \<Longrightarrow> gt_zero rt v"
  by (cases v rule: positive_number.cases) simp_all

lemma positive_field_not_null:
  "positive_number (get_prop j k) \<Longrightarrow> opt_prop (Some j) k' = get_prop j k'"
  by (cases j) simp_all

text \<open>\<open>forEach\<close> over items none of which is \<open>null\<close>: every error, then a space.\<close>

lemma collect_errors_items:
  "JNull \<notin> set items \<Longrightarrow>
     collect_errors rt acc items
       = Some (acc @ concat (map (\<lambda>i. to_string rt (get_prop i ''error'') @ '' '') items))"
  by (induction items arbitrary: acc) auto

lemma spaced_reason:
  assumes "item_list_or_none (get_prop j ''result'')"
    and "opt_prop (Some j) ''result'' = get_prop j ''result''"
    and "opt_prop (Some j) ''message'' = get_prop j ''message''"
  shows "\<exists>errMess. build_errMess rt (Some j) = Some errMess
           \<and> reject_reason (new_Error stk) errMess (Some j)
               = spaced_failure_precedence rt (new_Error stk) j"
proof (cases "\<exists>item items. get_prop j ''result'' = Some (JArr (item # items))")
  case True
  then obtain item items where r: "get_prop j ''result'' = Some (JArr (item # items))"
    by blast
  with assms(1) have nn: "JNull \<notin> set (item # items)"
    by simp
  have "build_errMess rt (Some j)
          = Some (Some (concat (map (\<lambda>i. to_string rt (get_prop i ''error'') @ '' '')
                                  (item # items))))"
    using r assms(2) nn collect_errors_items [of "item # items" rt "[]"]
    by (simp add: build_errMess_def)
  moreover have "concat (map (\<lambda>i. to_string rt (get_prop i ''error'') @ '' '') (item # items))
                   \<noteq> []"
    by simp
  ultimately show ?thesis
    using r by (simp add: reject_reason_def spaced_failure_precedence_def)
next
  case False
  have "gt_zero rt (opt_prop (get_prop j ''result'') ''length'') = False"
  proof (cases "get_prop j ''result''")
    case None
    then show ?thesis by simp
  next
    case (Some v)
    with assms(1) False show ?thesis
      by (cases v) (auto simp: neq_Nil_conv)
  qed
  then have "build_errMess rt (Some j) = Some None"
    using assms(2) by (simp add: build_errMess_def)
  moreover have "(case get_prop j ''result'' of
                    Some (JArr (item # items)) \<Rightarrow> a item items | _ \<Rightarrow> b) = b"
    for a :: "json \<Rightarrow> json list \<Rightarrow> reason" and b
    using False by (auto split: option.splits json.splits list.splits)
  ultimately show ?thesis
    using assms(3)
    by (simp add: reject_reason_def spaced_failure_precedence_def new_Error_def
          split: option.splits)
qed

text \<open>
  C3, as the claim states it, fails on its first rung. A result list is read where the
  exit-code field is above zero: there the code rejects with every item's error followed
  by a space (\<open>a b \<close> for the errors \<open>a\<close> and \<open>b\<close>), not with their concatenation (\<open>ab\<close>,
  which is what \<open>failure_precedence\<close> gives). Where the status field is above zero a result
  list is a result payload, and the promise resolves with it.
\<close>

theorem item_errors_counterexample:
  "positive_number (get_prop
      (JObj [(''exitCode'', JNum 1),
             (''result'', JArr [JObj [(''error'', JStr ''a'')], JObj [(''error'', JStr ''b'')]])])
      ''exitCode'')
   \<and> JSON_parse stub_runtime ''{\"exitCode\":1,\"result\":[{\"error\":\"a\"},{\"error\":\"b\"}]}''
       = Some (JObj [(''exitCode'', JNum 1),
             (''result'', JArr [JObj [(''error'', JStr ''a'')], JObj [(''error'', JStr ''b'')]])])
   \<and> failure_precedence stub_runtime (inv_error example_call)
        (JObj [(''exitCode'', JNum 1),
               (''result'', JArr [JObj [(''error'', JStr ''a'')], JObj [(''error'', JStr ''b'')]])])
       = ReasonString ''ab''
   \<and> promise (run_events stub_runtime example_call
        [StdoutData ''{\"exitCode\":1,\"result\":[{\"error\":\"a\"},{\"error\":\"b\"}]}'',
         ProcClose (Some 1)] example_start)
       = Some (Rejected (ReasonString ''a b ''))
   \<and> JSON_parse stub_runtime ''{\"status\":1,\"result\":[{\"error\":\"a\"}]}''
       = Some (JObj [(''status'', JNum 1), (''result'', JArr [JObj [(''error'', JStr ''a'')]])])
   \<and> promise (run_events stub_runtime example_call
        [StdoutData ''{\"status\":1,\"result\":[{\"error\":\"a\"}]}'', ProcClose (Some 0)]
        example_start)
       = Some (Resolved (Some (JArr [JObj [(''error'', JStr ''a'')]])))"
  by (simp add: example_call_def example_start_def example_env_def runCommand_start_def
        stub_runtime_def stub_parse_def new_invocation_def new_Error_def
        handler_defs failure_precedence_def)

text \<open>
  C3, amended: without \<open>bypassReject\<close> and without the tool-missing flag, when the output
  parses to a JSON that has a \<open>status\<close> number above zero and no result payload (absent or
  falsy), or an \<open>exitCode\<close> number above zero and a result that is absent, falsy or a list
  of items none of which is \<open>null\<close>, the promise is rejected, and the reason follows this
  precedence: the errors of the items of the result list, in list order and each followed
  by one space, if that list is not empty; else the \<open>message\<close> of the JSON if it is truthy;
  else the error made before the call.
\<close>

theorem failure_rejects_by_precedence:
  assumes "call = new_invocation env cmdString targetusername False"
    and "\<not> sfdxNotFound st"
    and "running st"
    and "JSON_parse rt (stdout_text st) = Some j"
    and "(positive_number (get_prop j ''status'') \<and> \<not> truthy (get_prop j ''result''))
         \<or> (positive_number (get_prop j ''exitCode'') \<and> item_list_or_none (get_prop j ''result''))"
  shows "promise (on_event rt call (ProcClose code) st)
           = Some (Rejected (spaced_failure_precedence rt (inv_error call) j))"
proof -
  have props: "opt_prop (Some j) k = get_prop j k" for k
    using assms(5) positive_field_not_null by blast
  have rej: "should_reject rt False code (Some j)"
    using assms(5) by (auto simp: should_reject_def props positive_number_gt_zero)
  have "item_list_or_none (get_prop j ''result'')"
    using assms(5) by (cases "get_prop j ''result''" rule: item_list_or_none.cases) auto
  then obtain errMess where "build_errMess rt (Some j) = Some errMess"
    and "reject_reason (new_Error (env_stack env)) errMess (Some j)
           = spaced_failure_precedence rt (new_Error (env_stack env)) j"
    using spaced_reason [of j rt "env_stack env"] props by blast
  with rej show ?thesis
    using assms(1,3,4)
    by (simp add: running_def on_close_def settle_def Let_def)
qed

theorem failure_rejects_by_precedence_witness:
  "example_call = new_invocation example_env ''org:display'' False False
   \<and> \<not> sfdxNotFound (run_events stub_runtime example_call
          [StdoutData ''{\"exitCode\":1,\"result\":[{\"error\":\"a\"},{\"error\":\"b\"}]}'']
          example_start)
   \<and> positive_number (get_prop
          (JObj [(''exitCode'', JNum 1),
                 (''result'', JArr [JObj [(''error'', JStr ''a'')], JObj [(''error'', JStr ''b'')]])])
          ''exitCode'')
   \<and> item_list_or_none (get_prop
          (JObj [(''exitCode'', JNum 1),
                 (''result'', JArr [JObj [(''error'', JStr ''a'')], JObj [(''error'', JStr ''b'')]])])
          ''result'')
   \<and> promise (run_events stub_runtime example_call
          [StdoutData ''{\"exitCode\":1,\"result\":[{\"error\":\"a\"},{\"error\":\"b\"}]}'',
           ProcClose (Some 1)] example_start)
       = Some (Rejected (ReasonString ''a b ''))"
  using failure_rejects_by_precedence [of example_call example_env "''org:display''" False
      "run_events stub_runtime example_call
          [StdoutData ''{\"exitCode\":1,\"result\":[{\"error\":\"a\"},{\"error\":\"b\"}]}'']
          example_start"
      stub_runtime
      "JObj [(''exitCode'', JNum 1),
             (''result'', JArr [JObj [(''error'', JStr ''a'')], JObj [(''error'', JStr ''b'')]])]"
      "Some 1"]
  by (simp add: example_call_def example_start_def example_env_def runCommand_start_def
        stub_runtime_def stub_parse_def new_invocation_def new_Error_def
        running_def on_stdout_def spaced_failure_precedence_def)

text \<open>The second rung: a status above zero, no result, and a message, in two chunks.\<close>

lemma status_failure_message_example:
  "promise (run_events stub_runtime example_call
      [StdoutData ''{\"status\":1,'', StdoutData ''\"message\":\"boom\"}'', ProcClose (Some 1)]
      example_start)
     = Some (Rejected (ReasonJson (JStr ''boom'')))"
  by (simp add: example_call_def example_start_def example_env_def runCommand_start_def
        stub_runtime_def stub_parse_def new_invocation_def new_Error_def handler_defs)

text \<open>
  C4, as the claim states it, fails on a negative exit code: line 149 asks for
  \<open>code > 0\<close>. A spawn that fails with EACCES closes with code -13, the output does not
  parse, the flag is false, and the promise resolves with \<open>undefined\<close>.
\<close>

theorem negative_exit_counterexample:
  "\<not> inv_bypassReject example_call
   \<and> \<not> sfdxNotFound (run_events stub_runtime example_call [ProcError ''spawn sfdx EACCES''] example_start)
   \<and> JSON_parse stub_runtime (stdout_text (run_events stub_runtime example_call
         [ProcError ''spawn sfdx EACCES''] example_start)) = None
   \<and> promise (run_events stub_runtime example_call
         [ProcError ''spawn sfdx EACCES'', ProcClose (Some (- 13))] example_start)
       = Some (Resolved None)"
  by (simp add: example_call_def example_start_def example_env_def runCommand_start_def
        stub_runtime_def stub_parse_def new_invocation_def new_Error_def
        handler_defs)

text \<open>
  C4, amended: without \<open>bypassReject\<close> and without the tool-missing flag, when the process
  exits with a code above zero and the output did not parse as JSON, the promise is
  rejected with the error object made before the spawn (the one that carries the stack).
\<close>

theorem positive_exit_unparsable_rejects:
  assumes "call = new_invocation env cmdString targetusername False"
    and "\<not> sfdxNotFound st"
    and "running st"
    and "JSON_parse rt (stdout_text st) = None"
    and "0 < c"
  shows "promise (on_event rt call (ProcClose (Some c)) st)
           = Some (Rejected (ReasonError (new_Error (env_stack env))))"
  using assms
  by (simp add: running_def on_close_def settle_def Let_def should_reject_def
        build_errMess_def reject_reason_def new_Error_def)

theorem positive_exit_unparsable_rejects_witness:
  "example_call = new_invocation example_env ''org:display'' False False
   \<and> \<not> sfdxNotFound (run_events stub_runtime example_call [StdoutData ''Segmentation fault''] example_start)
   \<and> running (run_events stub_runtime example_call [StdoutData ''Segmentation fault''] example_start)
   \<and> JSON_parse stub_runtime ''Segmentation fault'' = None
   \<and> promise (run_events stub_runtime example_call
                 [StdoutData ''Segmentation fault'', ProcClose (Some 139)] example_start)
       = Some (Rejected (ReasonError (new_Error ''Error at DXService.runCommand'')))"
  using positive_exit_unparsable_rejects [of example_call example_env "''org:display''" False
      "run_events stub_runtime example_call [StdoutData ''Segmentation fault''] example_start"
      stub_runtime 139]
  by (simp add: example_call_def example_start_def example_env_def runCommand_start_def
        stub_runtime_def stub_parse_def new_invocation_def new_Error_def
        running_def on_stdout_def)

subsection \<open>The tool-missing flag\<close>

text \<open>Right after a chunk that holds one of the two phrases the flag is true.\<close>

lemma stderr_chunk_sets_flag:
  assumes "handlers_attached st"
    and "includes_str (toLowerCase d) ''not found'' \<or> includes_str (toLowerCase d) ''not recognized''"
  shows "sfdxNotFound (on_event rt call (StderrData d) st)"
proof -
  have "d \<noteq> []"
    using assms(2) by (auto simp: toLowerCase_def)
  then show ?thesis
    using assms by (simp add: on_stderr_def add_effects_def)
qed

text \<open>
  C5 does not hold of the code: the handler assigns the flag at every chunk that is not
  empty, so a later chunk without the phrases clears it. The message of the Windows shell
  in two chunks: after the first the flag is true, after the second it is false, and the
  close shows no error to the user.
\<close>

theorem stderr_flag_overwritten:
  "includes_str (toLowerCase ''sfdx is not recognized as an internal or external command,'')
     ''not recognized''
   \<and> sfdxNotFound (run_events stub_runtime example_call
        [StderrData ''sfdx is not recognized as an internal or external command,''] example_start)
   \<and> \<not> sfdxNotFound (run_events stub_runtime example_call
        [StderrData ''sfdx is not recognized as an internal or external command,'',
         StderrData ''operable program or batch file.''] example_start)
   \<and> shown_errors (effects (run_events stub_runtime example_call
        [StderrData ''sfdx is not recognized as an internal or external command,'',
         StderrData ''operable program or batch file.'', ProcClose (Some 1)] example_start))
       = []"
  by (simp add: example_call_def example_start_def example_env_def runCommand_start_def
        stub_runtime_def stub_parse_def new_invocation_def new_Error_def
        handler_defs lower_not_recognized lower_operable)

subsection \<open>Cancellation\<close>

lemma listeners_on_event: "token_listeners (on_event rt call ev st) = token_listeners st"
  by (cases ev)
     (simp_all add: on_stdout_def on_stderr_def on_error_def on_cancelled_def on_close_def
        add_effects_def settle_def Let_def split: option.splits)

lemma listeners_run_events: "token_listeners (run_events rt call evs st) = token_listeners st"
  by (induction evs arbitrary: st) (simp_all add: listeners_on_event)

text \<open>
  C6, as the claim states it, fails: no handler removes the listener, so the token fired
  after the close still reaches \<open>killPromise\<close>, which sends SIGKILL to the tree of the
  process that has ended.
\<close>

theorem cancel_after_close_counterexample:
  "promise (run_events stub_runtime example_call
       [StdoutData ''{\"status\":0,\"result\":\"ok\"}'', ProcClose (Some 0)] example_start)
     = Some (Resolved (Some (JStr ''ok'')))
   \<and> token_listeners (run_events stub_runtime example_call
       [StdoutData ''{\"status\":0,\"result\":\"ok\"}'', ProcClose (Some 0)] example_start)
     = [Some 4242]
   \<and> kills_sent (effects (run_events stub_runtime example_call
       [StdoutData ''{\"status\":0,\"result\":\"ok\"}'', ProcClose (Some 0)] example_start)) = []
   \<and> kills_sent (effects (run_events stub_runtime example_call
       [StdoutData ''{\"status\":0,\"result\":\"ok\"}'', ProcClose (Some 0), TokenCancelled]
       example_start)) = [Some 4242]"
  by (simp add: example_call_def example_start_def example_env_def runCommand_start_def
        stub_runtime_def stub_parse_def new_invocation_def new_Error_def
        handler_defs)

lemma kills_sent_append: "kills_sent (a @ b) = kills_sent a @ kills_sent b"
  by (induction a rule: kills_sent.induct) simp_all

lemma kills_sent_killPromise: "kills_sent (concat (map killPromise ps)) = ps"
  by (induction ps) (simp_all add: killPromise_def)

text \<open>
  C6, amended: for every invocation with a cancellation token, the cancellation handler
  is added behind the listeners the token already has and stays subscribed, also across
  the close event; each firing of the token, while the process runs or after it has
  closed, calls every listener in order, the earlier ones and then this one, and each
  writes one log line and sends the termination signal to the process tree of its pid
  exactly once. (So a fresh token sends one signal, and a token used again still signals
  the processes of the calls before.)
\<close>

theorem cancel_handlers_stay_subscribed:
  assumes "st = run_events rt call evs (runCommand_start (Some ls) cmd)"
    and "\<not> spawn_unusable cmd"
  shows "token_listeners st = ls @ [pid_of cmd]
         \<and> token_listeners (on_event rt call (ProcClose code) st) = ls @ [pid_of cmd]
         \<and> effects (on_event rt call TokenCancelled st)
             = effects st @ concat (map killPromise ls)
               @ [WriteLog ''Cancelling task...'', TreeKill (pid_of cmd)]
         \<and> kills_sent (effects (on_event rt call TokenCancelled st))
             = kills_sent (effects st) @ ls @ [pid_of cmd]"
proof -
  have subscribed: "token_listeners st = ls @ [pid_of cmd]"
    using assms by (simp add: listeners_run_events runCommand_start_def)
  have "token_listeners (on_event rt call (ProcClose code) st) = ls @ [pid_of cmd]"
    by (simp only: listeners_on_event subscribed)
  moreover have fired: "effects (on_event rt call TokenCancelled st)
                   = effects st @ concat (map killPromise ls)
                     @ [WriteLog ''Cancelling task...'', TreeKill (pid_of cmd)]"
    using subscribed by (simp add: on_cancelled_def killPromise_def add_effects_def)
  moreover have "kills_sent (effects (on_event rt call TokenCancelled st))
                   = kills_sent (effects st) @ ls @ [pid_of cmd]"
    unfolding fired by (simp add: kills_sent_append kills_sent_killPromise)
  ultimately show ?thesis
    using subscribed by simp
qed

theorem cancel_handlers_stay_subscribed_witness:
  "\<not> spawn_unusable (SpawnProc (Some 4343) True True)
   \<and> example_start_reused = runCommand_start (Some [Some 4242]) (SpawnProc (Some 4343) True True)
   \<and> promise (run_events stub_runtime example_call [StdoutData ''working''] example_start_reused)
       = None
   \<and> token_listeners (run_events stub_runtime example_call
        [StdoutData ''working'', ProcClose (Some 0)] example_start_reused)
       = [Some 4242, Some 4343]
   \<and> kills_sent (effects (run_events stub_runtime example_call
        [StdoutData ''working'', TokenCancelled] example_start_reused))
       = [Some 4242, Some 4343]"
  using cancel_handlers_stay_subscribed [of
      "run_events stub_runtime example_call [StdoutData ''working''] example_start_reused"
      stub_runtime example_call "[StdoutData ''working'']" "[Some 4242]"
      "SpawnProc (Some 4343) True True" "Some 0"]
  by (simp add: example_call_def example_start_reused_def example_env_def runCommand_start_def
        stub_runtime_def stub_parse_def new_invocation_def new_Error_def handler_defs)


subsection \<open>No process, or a process without a stream\<close>

lemma detached_on_event:
  "\<not> handlers_attached st \<Longrightarrow> \<not> is_cancel ev \<Longrightarrow> on_event rt call ev st = st"
  by (cases ev) simp_all

lemma detached_run_events:
  "\<not> handlers_attached st \<Longrightarrow> \<forall>ev\<in>set evs. \<not> is_cancel ev \<Longrightarrow> run_events rt call evs st = st"
  by (induction evs) (simp_all add: detached_on_event)

text \<open>
  C10: when \<open>spawn\<close> returns \<open>null\<close>, or a process whose \<open>stdout\<close> or \<open>stderr\<close> is \<open>null\<close>,
  the promise is rejected at once with no reason; nothing is collected, nothing is logged
  or shown, no listener is added to the token, and no event of the process changes
  anything afterwards (no handler was registered, so nothing is classified).
\<close>

theorem unusable_spawn_rejects:
  assumes "spawn_unusable cmd"
    and "\<forall>ev\<in>set evs. \<not> is_cancel ev"
  shows "promise (runCommand_start token cmd) = Some (Rejected NoReason)
         \<and> stdout_text (runCommand_start token cmd) = []
         \<and> \<not> sfdxNotFound (runCommand_start token cmd)
         \<and> effects (runCommand_start token cmd) = []
         \<and> token_listeners (runCommand_start token cmd) = (case token of None \<Rightarrow> [] | Some ls \<Rightarrow> ls)
         \<and> run_events rt call evs (runCommand_start token cmd) = runCommand_start token cmd"
proof -
  have "\<not> handlers_attached (runCommand_start token cmd)"
    using assms(1) by (simp add: runCommand_start_def settle_def Let_def)
  then have "run_events rt call evs (runCommand_start token cmd) = runCommand_start token cmd"
    using assms(2) by (rule detached_run_events)
  then show ?thesis
    using assms(1) by (simp add: runCommand_start_def settle_def Let_def)
qed

theorem unusable_spawn_rejects_witness:
  "spawn_unusable (SpawnProc (Some 4242) True False)
   \<and> promise (runCommand_start (Some []) (SpawnProc (Some 4242) True False)) = Some (Rejected NoReason)
   \<and> run_events stub_runtime example_call
        [StdoutData ''{\"status\":0,\"result\":\"ok\"}'', ProcError ''spawn sfdx ENOENT'',
         ProcClose (Some 0)]
        (runCommand_start (Some []) (SpawnProc (Some 4242) True False))
       = runCommand_start (Some []) (SpawnProc (Some 4242) True False)
   \<and> effects (runCommand_start (Some []) (SpawnProc (Some 4242) True False)) = []
   \<and> token_listeners (runCommand_start (Some []) (SpawnProc (Some 4242) True False)) = []"
  using unusable_spawn_rejects [of "SpawnProc (Some 4242) True False"
      "[StdoutData ''{\"status\":0,\"result\":\"ok\"}'', ProcError ''spawn sfdx ENOENT'',
        ProcClose (Some 0)]" "Some []" stub_runtime example_call]
  by simp

section \<open>checkStatus: lemmas\<close>

lemma run_timers_idle: "\<not> timer_armed st \<Longrightarrow> run_timers check st = Some st"
  by (subst run_timers.simps) simp

lemma run_timers_fire:
  "timer_armed st \<Longrightarrow> run_timers check st = run_timers check (timer_callback check st)"
  by (subst run_timers.simps) simp

text \<open>The test that ends the loop reads \<open>status\<close>; the message posted carries \<open>state\<close>.\<close>

lemma callback_goes_on:
  assumes "check (checks_made st) = CheckReturns (Some res)"
    and "bi_status res \<noteq> Some (JStr ''Completed'')"
  shows "timer_callback check st
           = st\<lparr>timer_armed := True, checks_made := Suc (checks_made st),
                posted := posted st @ [progress_of res]\<rparr>"
  using assms by (simp add: timer_callback_def timer_body_def checkStatus_def)

lemma callback_completed:
  assumes "check (checks_made st) = CheckReturns (Some res)"
    and "bi_status res = Some (JStr ''Completed'')"
  shows "timer_callback check st
           = st\<lparr>timer_armed := False, checks_made := Suc (checks_made st),
                posted := posted st @ [progress_of res]\<rparr>"
  using assms by (simp add: timer_callback_def timer_body_def checkStatus_def)

lemma callback_raises:
  assumes "check (checks_made st) = CheckRaises"
  shows "timer_callback check st
           = st\<lparr>timer_armed := False, checks_made := Suc (checks_made st)\<rparr>"
  using assms by (simp add: timer_callback_def timer_body_def)

text \<open>
  Where the answers carry a \<open>status\<close>: two answers whose \<open>status\<close> is not \<open>Completed\<close> and
  a third whose \<open>status\<close> is, and the loop ends after three checks, having posted the
  \<open>state\<close> and the two counts of each answer in order.
\<close>

lemma three_checks_when_status_is_set:
  assumes "check 0 = CheckReturns (Some r0)"
    and "check 1 = CheckReturns (Some r1)"
    and "check 2 = CheckReturns (Some r2)"
    and "bi_status r0 \<noteq> Some (JStr ''Completed'')"
    and "bi_status r1 \<noteq> Some (JStr ''Completed'')"
    and "bi_status r2 = Some (JStr ''Completed'')"
  shows "run_timers check (checkStatus poller_init)
           = Some \<lparr>timer_armed = False, checks_made = 3,
                   posted =
                     [\<lparr>msg_state = bi_state r0, msg_processed = bi_numberRecordsProcessed r0,
                        msg_failures = bi_numberRecordsFailed r0\<rparr>,
                      \<lparr>msg_state = bi_state r1, msg_processed = bi_numberRecordsProcessed r1,
                        msg_failures = bi_numberRecordsFailed r1\<rparr>,
                      \<lparr>msg_state = bi_state r2, msg_processed = bi_numberRecordsProcessed r2,
                        msg_failures = bi_numberRecordsFailed r2\<rparr>],
                   escaped = []\<rparr>"
proof -
  let ?s0 = "checkStatus poller_init"
  let ?s1 = "\<lparr>timer_armed = True, checks_made = 1, posted = [progress_of r0], escaped = []\<rparr>"
  let ?s2 = "\<lparr>timer_armed = True, checks_made = 2,
              posted = [progress_of r0, progress_of r1], escaped = []\<rparr>"
  let ?s3 = "\<lparr>timer_armed = False, checks_made = 3,
              posted = [progress_of r0, progress_of r1, progress_of r2], escaped = []\<rparr>"
  have "timer_callback check ?s0 = ?s1"
    using callback_goes_on [of check ?s0 r0] assms(1,4)
    by (simp add: checkStatus_def poller_init_def)
  moreover have "timer_callback check ?s1 = ?s2"
    using callback_goes_on [of check ?s1 r1] assms(2,5) by simp
  moreover have "timer_callback check ?s2 = ?s3"
    using callback_completed [of check ?s2 r2] assms(3,6) by simp
  moreover have "timer_armed ?s0"
    by (simp add: checkStatus_def)
  ultimately have "run_timers check ?s0 = run_timers check ?s3"
    by (simp add: run_timers_fire)
  then show ?thesis
    by (simp add: run_timers_idle progress_of_def)
qed

lemma three_checks_example:
  "run_timers check_twice_then_done (checkStatus poller_init)
     = Some \<lparr>timer_armed = False, checks_made = 3,
             posted = [\<lparr>msg_state = Some (JStr ''InProgress''), msg_processed = Some (JNum 4),
                         msg_failures = Some (JNum 0)\<rparr>,
                       \<lparr>msg_state = Some (JStr ''InProgress''), msg_processed = Some (JNum 4),
                         msg_failures = Some (JNum 0)\<rparr>,
                       \<lparr>msg_state = Some (JStr ''Completed''), msg_processed = Some (JNum 10),
                         msg_failures = Some (JNum 1)\<rparr>],
             escaped = []\<rparr>"
  using three_checks_when_status_is_set [of check_twice_then_done batch_in_progress
      batch_in_progress batch_completed]
  by (simp add: batch_in_progress_def batch_completed_def)

text \<open>A check that never answers with the \<open>status\<close> \<open>Completed\<close> keeps the loop going.\<close>

lemma never_terminal_never_returns:
  assumes "run_timers check st = Some final"
  shows "(\<forall>n. \<exists>res. check n = CheckReturns (Some res) \<and> bi_status res \<noteq> Some (JStr ''Completed''))
           \<longrightarrow> \<not> timer_armed st"
proof (rule run_timers.raw_induct
    [where P = "\<lambda>c s y. (\<forall>n. \<exists>res. c n = CheckReturns (Some res)
                               \<and> bi_status res \<noteq> Some (JStr ''Completed''))
                          \<longrightarrow> \<not> timer_armed s", OF _ assms])
  fix f c s y
  assume IH: "\<And>a b y. f a b = Some y \<Longrightarrow>
                (\<forall>n. \<exists>res. a n = CheckReturns (Some res)
                        \<and> bi_status res \<noteq> Some (JStr ''Completed''))
                \<longrightarrow> \<not> timer_armed b"
    and step: "(if timer_armed s then f c (timer_callback c s) else Some s) = Some y"
  show "(\<forall>n. \<exists>res. c n = CheckReturns (Some res) \<and> bi_status res \<noteq> Some (JStr ''Completed''))
          \<longrightarrow> \<not> timer_armed s"
  proof (intro impI notI)
    assume open_ended: "\<forall>n. \<exists>res. c n = CheckReturns (Some res)
                              \<and> bi_status res \<noteq> Some (JStr ''Completed'')"
      and armed: "timer_armed s"
    from open_ended obtain res where "c (checks_made s) = CheckReturns (Some res)"
      and "bi_status res \<noteq> Some (JStr ''Completed'')"
      by blast
    then have "timer_armed (timer_callback c s)"
      by (simp add: callback_goes_on)
    moreover from step armed have "f c (timer_callback c s) = Some y"
      by simp
    ultimately show False
      using IH open_ended by blast
  qed
qed

lemma never_terminal_runs_for_ever:
  assumes "\<forall>n. \<exists>res. check n = CheckReturns (Some res) \<and> bi_status res \<noteq> Some (JStr ''Completed'')"
    and "timer_armed st"
  shows "run_timers check st = None"
proof (cases "run_timers check st")
  case None
  then show ?thesis .
next
  case (Some final)
  from never_terminal_never_returns [OF this] assms show ?thesis
    by blast
qed

text \<open>
  C8 does not hold of the code. The loop reports the \<open>state\<close> of every answer, and the
  callback of the load reports \<open>state: 'Completed'\<close> too, but the test that ends the loop
  reads \<open>status\<close> (line 139). With a check that answers \<open>state\<close> \<open>InProgress\<close> twice and
  \<open>state\<close> \<open>Completed\<close> from its third call on, the three answers are posted in order, each
  with its state and counts, and then the timeout is set again: a fourth check follows,
  and the loop never ends.
\<close>

theorem completed_state_does_not_stop:
  "timer_callback check_state_only
     (timer_callback check_state_only
       (timer_callback check_state_only (checkStatus poller_init)))
     = \<lparr>timer_armed = True, checks_made = 3,
        posted = [\<lparr>msg_state = Some (JStr ''InProgress''), msg_processed = Some (JNum 4),
                    msg_failures = Some (JNum 0)\<rparr>,
                  \<lparr>msg_state = Some (JStr ''InProgress''), msg_processed = Some (JNum 4),
                    msg_failures = Some (JNum 0)\<rparr>,
                  \<lparr>msg_state = Some (JStr ''Completed''), msg_processed = Some (JNum 10),
                    msg_failures = Some (JNum 1)\<rparr>],
        escaped = []\<rparr>
   \<and> checks_made (timer_callback check_state_only
        (timer_callback check_state_only
          (timer_callback check_state_only
            (timer_callback check_state_only (checkStatus poller_init))))) = 4
   \<and> run_timers check_state_only (checkStatus poller_init) = None"
proof -
  have "\<forall>n. \<exists>res. check_state_only n = CheckReturns (Some res)
                 \<and> bi_status res \<noteq> Some (JStr ''Completed'')"
    by (simp add: state_in_progress_def state_completed_def)
  then have "run_timers check_state_only (checkStatus poller_init) = None"
    by (rule never_terminal_runs_for_ever) (simp add: checkStatus_def)
  then show ?thesis
    by (simp add: timer_callback_def timer_body_def checkStatus_def poller_init_def
          progress_of_def state_in_progress_def state_completed_def)
qed


text \<open>
  C9: when the status check raises, the loop stops there: the check is counted, no
  timeout is left pending, nothing is posted for it, and no exception leaves the callback.
  So with a check that raises at its second call the loop ends after two checks, having
  posted the first answer once.
\<close>

theorem raising_check_stops_loop:
  assumes "timer_armed st"
    and "check (checks_made st) = CheckRaises"
  shows "run_timers check st
           = Some (st\<lparr>timer_armed := False, checks_made := Suc (checks_made st)\<rparr>)"
  using assms by (simp add: run_timers_fire callback_raises run_timers_idle)

theorem raising_check_stops_loop_witness:
  "timer_armed (timer_callback check_raises_second (checkStatus poller_init))
   \<and> check_raises_second
        (checks_made (timer_callback check_raises_second (checkStatus poller_init))) = CheckRaises
   \<and> run_timers check_raises_second (checkStatus poller_init)
       = Some \<lparr>timer_armed = False, checks_made = 2,
               posted = [progress_of batch_in_progress], escaped = []\<rparr>"
proof -
  let ?s0 = "checkStatus poller_init"
  let ?s1 = "timer_callback check_raises_second ?s0"
  have s1: "?s1 = \<lparr>timer_armed = True, checks_made = 1,
                    posted = [progress_of batch_in_progress], escaped = []\<rparr>"
    by (simp add: timer_callback_def timer_body_def checkStatus_def poller_init_def
          batch_in_progress_def)
  have "run_timers check_raises_second ?s0 = run_timers check_raises_second ?s1"
    by (simp add: run_timers_fire checkStatus_def)
  then show ?thesis
    using raising_check_stops_loop [of ?s1 check_raises_second] s1 by simp
qed

end
